theory Spec2Isabelle
  imports Complex_Main "HOL-Library.Multiset"
begin

section \<open>Configuration (src/config.js)\<close>

text \<open>
  JavaScript numbers are modelled as reals with exact arithmetic: the finite values of the
  program, without rounding error. Non-finite values (\<open>NaN\<close>, \<open>Infinity\<close>) are
  represented only where the code tests for them; a division by zero, which gives one in
  JavaScript, gives \<open>0\<close> in HOL, and the theorems are stated where no denominator is
  zero (the constants of \<open>config.js\<close>, or a positive weighting constant). Where the
  last bit of a number decides a result, in the rounding and the ranking of
  \<open>calculateRiskScore\<close>, the scores are taken as computed in double arithmetic. Sample
  sizes and game counts are natural numbers. The scoring code reads
  \<open>window.ChessAntiCheat.config\<close> at every call, so each function of the model takes the
  configuration as its first argument; \<open>default_config\<close> holds the constants of
  \<open>config.js\<close> that the modelled code reads.
\<close>

record thresholds =
  ACCOUNT_AGE_DAYS :: real
  WEIGHTING_K :: real
  MIN_GAMES :: real
  ACCOUNT_AGE_MULTIPLIER :: real

record winrate_thresholds =
  LOW_WINRATE_THRESHOLD :: real
  MEDIUM_WINRATE_THRESHOLD :: real
  HIGH_WINRATE_THRESHOLD :: real
  BASE_SCORE :: real
  EXTENDED_SCORE :: real
  SCALE_FACTOR :: real

record high_accuracy_thresholds =
  MODERATE_SUSPICION_THRESHOLD :: real
  HIGH_SUSPICION_THRESHOLD :: real
  EXTREME_SUSPICION_THRESHOLD :: real
  MODERATE_MAX_SCORE :: real
  HIGH_MAX_SCORE :: real
  EXTREME_SCORE_INCREMENT :: real
  EXTREME_SCORE_STEP :: real

record weights =
  OVERALL_WINRATE :: real
  RECENT_WINRATE :: real
  HIGH_ACCURACY :: real

record rating_tier =
  threshold :: real
  requiredAccuracy :: real

record accuracy_thresholds =
  LOW_RATING :: rating_tier
  HIGH_RATING :: rating_tier

record risk_level =
  rl_min :: real
  rl_max :: real
  rl_color :: string
  rl_label :: string

record risk_levels =
  LOW :: risk_level
  MODERATE :: risk_level
  HIGH :: risk_level
  VERY_HIGH :: risk_level

record settings =
  RATED_ONLY :: bool

record config =
  ACCURACY_THRESHOLDS :: accuracy_thresholds
  WEIGHTS :: weights
  THRESHOLDS :: thresholds
  WINRATE_THRESHOLDS :: winrate_thresholds
  HIGH_ACCURACY_THRESHOLDS :: high_accuracy_thresholds
  DEFAULT_SETTINGS :: settings
  RISK_LEVELS :: risk_levels

definition default_config :: config where
  "default_config =
     \<lparr> ACCURACY_THRESHOLDS =
         \<lparr> LOW_RATING = \<lparr> threshold = 1500, requiredAccuracy = 80 \<rparr>,
           HIGH_RATING = \<lparr> threshold = 1500, requiredAccuracy = 90 \<rparr> \<rparr>,
       WEIGHTS = \<lparr> OVERALL_WINRATE = 35 / 100, RECENT_WINRATE = 35 / 100,
                   HIGH_ACCURACY = 30 / 100 \<rparr>,
       THRESHOLDS = \<lparr> ACCOUNT_AGE_DAYS = 60, WEIGHTING_K = 20, MIN_GAMES = 5,
                      ACCOUNT_AGE_MULTIPLIER = 3 / 2 \<rparr>,
       WINRATE_THRESHOLDS =
         \<lparr> LOW_WINRATE_THRESHOLD = 5 / 10, MEDIUM_WINRATE_THRESHOLD = 6 / 10,
           HIGH_WINRATE_THRESHOLD = 7 / 10, BASE_SCORE = 50, EXTENDED_SCORE = 100,
           SCALE_FACTOR = 1 / 10 \<rparr>,
       HIGH_ACCURACY_THRESHOLDS =
         \<lparr> MODERATE_SUSPICION_THRESHOLD = 10, HIGH_SUSPICION_THRESHOLD = 20,
           EXTREME_SUSPICION_THRESHOLD = 30, MODERATE_MAX_SCORE = 50, HIGH_MAX_SCORE = 100,
           EXTREME_SCORE_INCREMENT = 50, EXTREME_SCORE_STEP = 5 \<rparr>,
       DEFAULT_SETTINGS = \<lparr> RATED_ONLY = True \<rparr>,
       RISK_LEVELS =
         \<lparr> LOW = \<lparr> rl_min = 0, rl_max = 30, rl_color = ''#4CAF50'', rl_label = ''Low Risk'' \<rparr>,
           MODERATE = \<lparr> rl_min = 31, rl_max = 50, rl_color = ''#FFC107'',
                        rl_label = ''Moderate Risk'' \<rparr>,
           HIGH = \<lparr> rl_min = 51, rl_max = 70, rl_color = ''#FF9800'', rl_label = ''High Risk'' \<rparr>,
           VERY_HIGH = \<lparr> rl_min = 71, rl_max = 100, rl_color = ''#F44336'',
                         rl_label = ''Very High Risk'' \<rparr> \<rparr> \<rparr>"

section \<open>Risk score calculation (src/risk-score.js)\<close>

subsection \<open>Confidence weight and its cache\<close>

text \<open>
  \<open>weightCache\<close> is a module-level \<open>Map\<close> keyed by the sample size alone. The model
  passes it in and returns it updated.
\<close>

type_synonym weight_cache = "nat \<rightharpoonup> real"

definition calculateWeight :: "config \<Rightarrow> weight_cache \<Rightarrow> nat \<Rightarrow> real \<times> weight_cache" where
  "calculateWeight cfg weightCache n =
     (case weightCache n of
        Some cached \<Rightarrow> (cached, weightCache)
      | None \<Rightarrow>
          (let weight = real n / (real n + WEIGHTING_K (THRESHOLDS cfg))
           in (weight, weightCache(n \<mapsto> weight))))"

definition calculateAccountAgeFactor :: "config \<Rightarrow> real \<Rightarrow> real" where
  "calculateAccountAgeFactor cfg accountAgeDays =
     (if accountAgeDays \<le> ACCOUNT_AGE_DAYS (THRESHOLDS cfg)
      then ACCOUNT_AGE_MULTIPLIER (THRESHOLDS cfg)
      else 1)"

definition getRiskLevel :: "config \<Rightarrow> real \<Rightarrow> risk_level" where
  "getRiskLevel cfg score =
     (if score \<le> rl_max (LOW (RISK_LEVELS cfg)) then LOW (RISK_LEVELS cfg)
      else if score \<le> rl_max (MODERATE (RISK_LEVELS cfg)) then MODERATE (RISK_LEVELS cfg)
      else if score \<le> rl_max (HIGH (RISK_LEVELS cfg)) then HIGH (RISK_LEVELS cfg)
      else VERY_HIGH (RISK_LEVELS cfg))"

subsection \<open>Data model of the scoring engine\<close>

text \<open>
  \<open>highAccuracyPercentage\<close> is the one field the code tests with \<open>isNaN\<close>, so it is
  the one field whose type has a \<open>NaN\<close> case. A field name carries a prefix where
  JavaScript uses the same name in several objects (\<open>total\<close>, \<open>score\<close>, \<open>username\<close>).
\<close>

datatype jsnum = Num real | NaN

record accuracy_data =
  gamesWithAccuracy :: nat
  highAccuracyGames :: nat
  highAccuracyPercentage :: jsnum

record games_counts =
  gc_total :: nat
  gc_wins :: nat
  gc_losses :: nat
  gc_draws :: nat

record recent_games =
  rg_total :: nat
  rg_wins :: nat
  rg_losses :: nat
  rg_draws :: nat
  rg_winrate :: real

record format_metrics =
  currentRating :: real
  overallWinrate :: real
  gamesCounts :: games_counts
  recentGames :: recent_games
  accuracy :: accuracy_data

record player_metrics =
  accountAge :: real
  formats :: "(string \<times> format_metrics) list"
  pm_username :: string
  pm_timestamp :: string

text \<open>The debug records returned beside the scores.\<close>

record accuracy_debug =
  ad_baseScore :: real
  ad_sampleWeight :: real
  ad_reason :: "string option"

record accuracy_result =
  ar_score :: real
  ar_debug :: accuracy_debug

record winrate_factor =
  wf_raw :: real
  wf_score :: real
  wf_weight :: real
  wf_weighted :: real
  wf_games :: nat

record accuracy_factor =
  af_raw :: jsnum
  af_baseScore :: real
  af_sampleWeight :: real
  af_reason :: "string option"
  af_weight :: real
  af_weighted :: real
  af_gamesWithAccuracy :: nat
  af_highAccuracyGames :: nat
  af_playerRating :: real

record format_debug =
  fd_overallWinRate :: winrate_factor
  fd_recentWinRate :: winrate_factor
  fd_accuracy :: accuracy_factor
  fd_weightedSum :: real

record calculation =
  calc_weightedSum :: real
  calc_accountAgeFactor :: real
  beforeCap :: real
  afterCap :: real

record factors = format_debug +
  fa_accountAgeFactor :: real
  fa_calculation :: calculation

record format_score =
  fs_format :: string
  fs_score :: real
  fs_factors :: "factors option"

record max_score =
  ms_value :: int
  ms_format :: "string option"
  ms_factors :: "factors option"
  ms_reason :: "string option"

record risk_score_result =
  maxScore :: max_score
  otherFormats :: "format_score list"
  accountAgeScore :: real
  accountAgeDays :: real
  rs_username :: string
  rs_timestamp :: string

subsection \<open>Sub-scores\<close>

definition calculateWinRateScore ::
  "config \<Rightarrow> weight_cache \<Rightarrow> real \<Rightarrow> nat \<Rightarrow> real \<times> weight_cache" where
  "calculateWinRateScore cfg weightCache winRate totalGames =
     (let W = WINRATE_THRESHOLDS cfg in
      if winRate \<le> LOW_WINRATE_THRESHOLD W then (0, weightCache)
      else
        let score =
              (if winRate > HIGH_WINRATE_THRESHOLD W then
                 EXTENDED_SCORE W +
                 ((winRate - HIGH_WINRATE_THRESHOLD W) / SCALE_FACTOR W) * EXTENDED_SCORE W
               else if winRate > MEDIUM_WINRATE_THRESHOLD W then
                 BASE_SCORE W +
                 ((winRate - MEDIUM_WINRATE_THRESHOLD W) /
                    (HIGH_WINRATE_THRESHOLD W - MEDIUM_WINRATE_THRESHOLD W)) * BASE_SCORE W
               else if winRate > LOW_WINRATE_THRESHOLD W then
                 ((winRate - LOW_WINRATE_THRESHOLD W) /
                    (MEDIUM_WINRATE_THRESHOLD W - LOW_WINRATE_THRESHOLD W)) * BASE_SCORE W
               else 0);
            (weight, weightCache') = calculateWeight cfg weightCache totalGames
        in (score * weight, weightCache'))"

text \<open>
  The first test, \<open>gamesWithAccuracy === 0 || isNaN(highAccuracyPercentage)\<close>, is the
  \<open>NaN\<close> case of the match together with the first test of the \<open>Num\<close> case. The
  \<open>playerRating\<close> argument is not read.
\<close>

definition calculateHighAccuracyScore ::
  "config \<Rightarrow> weight_cache \<Rightarrow> accuracy_data \<Rightarrow> real \<Rightarrow> accuracy_result \<times> weight_cache" where
  "calculateHighAccuracyScore cfg weightCache accuracyData playerRating =
     (let H = HIGH_ACCURACY_THRESHOLDS cfg in
      case highAccuracyPercentage accuracyData of
        NaN \<Rightarrow>
          (\<lparr> ar_score = 0,
             ar_debug = \<lparr> ad_baseScore = 0, ad_sampleWeight = 0, ad_reason = Some ''no_accuracy_data'' \<rparr> \<rparr>,
           weightCache)
      | Num pct \<Rightarrow>
          if gamesWithAccuracy accuracyData = 0 then
            (\<lparr> ar_score = 0,
               ar_debug = \<lparr> ad_baseScore = 0, ad_sampleWeight = 0, ad_reason = Some ''no_accuracy_data'' \<rparr> \<rparr>,
             weightCache)
          else if pct \<le> MODERATE_SUSPICION_THRESHOLD H then
            (\<lparr> ar_score = 0,
               ar_debug = \<lparr> ad_baseScore = 0, ad_sampleWeight = 0, ad_reason = Some ''below_threshold'' \<rparr> \<rparr>,
             weightCache)
          else
            let (sampleWeight, weightCache') =
                  calculateWeight cfg weightCache (gamesWithAccuracy accuracyData);
                baseScore =
                  (if pct > EXTREME_SUSPICION_THRESHOLD H then
                     HIGH_MAX_SCORE H +
                     of_int \<lfloor>(pct - EXTREME_SUSPICION_THRESHOLD H) / EXTREME_SCORE_STEP H\<rfloor> *
                       EXTREME_SCORE_INCREMENT H
                   else if pct > HIGH_SUSPICION_THRESHOLD H then
                     (let progressInRange =
                            (pct - HIGH_SUSPICION_THRESHOLD H) /
                            (EXTREME_SUSPICION_THRESHOLD H - HIGH_SUSPICION_THRESHOLD H)
                      in MODERATE_MAX_SCORE H + progressInRange * MODERATE_MAX_SCORE H)
                   else
                     (let progressInRange =
                            (pct - MODERATE_SUSPICION_THRESHOLD H) /
                            (HIGH_SUSPICION_THRESHOLD H - MODERATE_SUSPICION_THRESHOLD H)
                      in progressInRange * MODERATE_MAX_SCORE H))
            in (\<lparr> ar_score = baseScore * sampleWeight,
                   ar_debug = \<lparr> ad_baseScore = baseScore, ad_sampleWeight = sampleWeight,
                                ad_reason = None \<rparr> \<rparr>,
                weightCache'))"

subsection \<open>Per-format score\<close>

text \<open>
  Without \<open>debug\<close> the function returns the bare number, with it an object holding the
  number and the breakdown: a pair whose second component is \<open>None\<close> without \<open>debug\<close>.
\<close>

definition calculateFormatRiskScore ::
  "config \<Rightarrow> weight_cache \<Rightarrow> format_metrics \<Rightarrow> bool \<Rightarrow>
     (real \<times> format_debug option) \<times> weight_cache" where
  "calculateFormatRiskScore cfg weightCache formatMetrics debug =
     (let Wt = WEIGHTS cfg;
          (overallWinRateScore, c1) =
             calculateWinRateScore cfg weightCache (overallWinrate formatMetrics / 100)
               (gc_total (gamesCounts formatMetrics));
          (recentWinRateScore, c2) =
             calculateWinRateScore cfg c1 (rg_winrate (recentGames formatMetrics) / 100)
               (rg_total (recentGames formatMetrics));
          (accuracyResult, c3) =
             calculateHighAccuracyScore cfg c2 (accuracy formatMetrics)
               (currentRating formatMetrics);
          highAccuracyScore = ar_score accuracyResult;
          weightedSum =
             OVERALL_WINRATE Wt * overallWinRateScore +
             RECENT_WINRATE Wt * recentWinRateScore +
             HIGH_ACCURACY Wt * highAccuracyScore
      in if \<not> debug then ((weightedSum, None), c3)
         else
           ((weightedSum,
             Some \<lparr> fd_overallWinRate =
                      \<lparr> wf_raw = overallWinrate formatMetrics,
                        wf_score = overallWinRateScore,
                        wf_weight = OVERALL_WINRATE Wt,
                        wf_weighted = OVERALL_WINRATE Wt * overallWinRateScore,
                        wf_games = gc_total (gamesCounts formatMetrics) \<rparr>,
                    fd_recentWinRate =
                      \<lparr> wf_raw = rg_winrate (recentGames formatMetrics),
                        wf_score = recentWinRateScore,
                        wf_weight = RECENT_WINRATE Wt,
                        wf_weighted = RECENT_WINRATE Wt * recentWinRateScore,
                        wf_games = rg_total (recentGames formatMetrics) \<rparr>,
                    fd_accuracy =
                      \<lparr> af_raw = highAccuracyPercentage (accuracy formatMetrics),
                        af_baseScore = ad_baseScore (ar_debug accuracyResult),
                        af_sampleWeight = ad_sampleWeight (ar_debug accuracyResult),
                        af_reason = ad_reason (ar_debug accuracyResult),
                        af_weight = HIGH_ACCURACY Wt,
                        af_weighted = HIGH_ACCURACY Wt * ar_score accuracyResult,
                        af_gamesWithAccuracy = gamesWithAccuracy (accuracy formatMetrics),
                        af_highAccuracyGames = highAccuracyGames (accuracy formatMetrics),
                        af_playerRating = currentRating formatMetrics \<rparr>,
                    fd_weightedSum = weightedSum \<rparr>),
            c3))"

subsection \<open>Player score\<close>


text \<open>
  The body of the \<open>for\<close> loop over \<open>Object.entries(metrics.formats)\<close>, which yields the
  formats in insertion order: the formats are an association list. The result is the
  array \<open>formatScores\<close>, in the order of the pushes.
\<close>

fun formatScores_loop ::
  "config \<Rightarrow> bool \<Rightarrow> real \<Rightarrow> weight_cache \<Rightarrow> (string \<times> format_metrics) list \<Rightarrow>
     format_score list \<times> weight_cache" where
  "formatScores_loop cfg debug accountAgeFactor weightCache [] = ([], weightCache)"
| "formatScores_loop cfg debug accountAgeFactor weightCache ((format, formatMetrics) # rest) =
     (if real (rg_total (recentGames formatMetrics)) < MIN_GAMES (THRESHOLDS cfg)
      then formatScores_loop cfg debug accountAgeFactor weightCache rest
      else
        let (result, c1) = calculateFormatRiskScore cfg weightCache formatMetrics debug;
            rawScore = fst result;
            finalFormatScore = min 100 (accountAgeFactor * rawScore);
            entry =
              \<lparr> fs_format = format,
                fs_score = finalFormatScore,
                fs_factors =
                  (case snd result of
                     None \<Rightarrow> None
                   | Some d \<Rightarrow>
                       Some (format_debug.extend d
                         \<lparr> fa_accountAgeFactor = accountAgeFactor,
                           fa_calculation =
                             \<lparr> calc_weightedSum = rawScore,
                               calc_accountAgeFactor = accountAgeFactor,
                               beforeCap = accountAgeFactor * rawScore,
                               afterCap = finalFormatScore \<rparr> \<rparr>)) \<rparr>;
            (entries, c2) = formatScores_loop cfg debug accountAgeFactor c1 rest
        in (entry # entries, c2))"



section \<open>Player metrics (src/metrics.js)\<close>

record game =
  g_timeClass :: string
  g_playerRating :: real
  g_result :: string
  g_accuracy :: "real option"
  g_rated :: bool

record game_record =
  wins :: nat
  losses :: nat
  draws :: nat

record format_stats =
  st_timeClass :: string
  st_rating :: real
  st_wins :: nat
  st_losses :: nat
  st_draws :: nat

text \<open>\<open>now\<close> is \<open>Date.now()\<close>, in milliseconds; \<open>joinedTimestamp\<close> is in seconds.\<close>

definition calculateAccountAge :: "real \<Rightarrow> real \<Rightarrow> real" where
  "calculateAccountAge now joinedTimestamp =
     of_int \<lfloor>(now - joinedTimestamp * 1000) / (1000 * 60 * 60 * 24)\<rfloor>"

definition calculateWinrate :: "game_record \<Rightarrow> real" where
  "calculateWinrate record =
     (let total = wins record + losses record + draws record
      in if total > 0 then (real (wins record) / real total) * 100 else 0)"

text \<open>
  The predicate of the \<open>highAccuracyGames\<close> filter: the accuracy a game needs depends on
  the player's rating in that game.
\<close>

definition isHighAccuracyGame :: "config \<Rightarrow> game \<Rightarrow> bool" where
  "isHighAccuracyGame cfg game =
     (let A = ACCURACY_THRESHOLDS cfg;
          threshold' =
            (if g_playerRating game < threshold (LOW_RATING A)
             then requiredAccuracy (LOW_RATING A)
             else requiredAccuracy (HIGH_RATING A))
      in case g_accuracy game of None \<Rightarrow> False | Some a \<Rightarrow> a \<ge> threshold')"

text \<open>
  \<open>stored\<close> is the \<open>settings\<close> entry of the extension's storage, \<open>None\<close> when it is
  absent or the read fails.
\<close>

definition calculateFormatMetrics ::
  "config \<Rightarrow> settings option \<Rightarrow> format_stats \<Rightarrow> game list \<Rightarrow> format_metrics" where
  "calculateFormatMetrics cfg stored stats recentGames' =
     (let userSettings = (case stored of None \<Rightarrow> DEFAULT_SETTINGS cfg | Some st \<Rightarrow> st);
          formatGames =
            filter (\<lambda>game. g_timeClass game = st_timeClass stats \<and>
                            (if RATED_ONLY userSettings then g_rated game = True else True))
              recentGames';
          recentStats =
            foldl (\<lambda>acc game.
                     if g_result game = ''win'' then acc\<lparr> wins := wins acc + 1 \<rparr>
                     else if g_result game = ''loss'' then acc\<lparr> losses := losses acc + 1 \<rparr>
                     else if g_result game = ''draw'' then acc\<lparr> draws := draws acc + 1 \<rparr>
                     else acc)
              \<lparr> wins = 0, losses = 0, draws = 0 \<rparr> formatGames;
          gamesWithAccuracy' = filter (\<lambda>game. g_accuracy game \<noteq> None) formatGames;
          rating = (if st_rating stats = 0 then 0 else st_rating stats);
          overall =
            calculateWinrate
              \<lparr> wins = st_wins stats, losses = st_losses stats, draws = st_draws stats \<rparr>;
          counts =
            \<lparr> gc_total = st_wins stats + st_losses stats + st_draws stats,
              gc_wins = st_wins stats, gc_losses = st_losses stats,
              gc_draws = st_draws stats \<rparr>;
          recent =
            \<lparr> rg_total = wins recentStats + losses recentStats + draws recentStats,
              rg_wins = wins recentStats, rg_losses = losses recentStats,
              rg_draws = draws recentStats, rg_winrate = calculateWinrate recentStats \<rparr>
      in if length gamesWithAccuracy' = 0 then
           \<lparr> currentRating = rating, overallWinrate = overall, gamesCounts = counts,
             recentGames = recent,
             accuracy = \<lparr> gamesWithAccuracy = 0, highAccuracyGames = 0,
                          highAccuracyPercentage = Num 0 \<rparr> \<rparr>
         else
           let highAccuracyGames' = filter (isHighAccuracyGame cfg) gamesWithAccuracy'
           in \<lparr> currentRating = rating, overallWinrate = overall, gamesCounts = counts,
                recentGames = recent,
                accuracy =
                  \<lparr> gamesWithAccuracy = length gamesWithAccuracy',
                    highAccuracyGames = length highAccuracyGames',
                    highAccuracyPercentage =
                      Num (if length gamesWithAccuracy' > 0
                           then (real (length highAccuracyGames') /
                                 real (length gamesWithAccuracy')) * 100
                           else 0) \<rparr> \<rparr>)"

subsection \<open>Validation\<close>

text \<open>
  Comparisons with \<open>NaN\<close> are false.
\<close>

fun js_less :: "jsnum \<Rightarrow> real \<Rightarrow> bool" where
  "js_less (Num x) y = (x < y)"
| "js_less NaN y = False"

fun js_greater :: "jsnum \<Rightarrow> real \<Rightarrow> bool" where
  "js_greater (Num x) y = (x > y)"
| "js_greater NaN y = False"

text \<open>
  The body of the \<open>for ... in\<close> loop of \<open>validateMetrics\<close>. Every field of the model's
  records holds a number, so the two \<open>typeof\<close> tests pass and no property access
  throws: the \<open>catch\<close> branch, which returns \<open>false\<close>, is not reached.
\<close>

fun validateMetrics_loop :: "(string \<times> format_metrics) list \<Rightarrow> bool" where
  "validateMetrics_loop [] = True"
| "validateMetrics_loop ((format, formatMetrics) # rest) =
     (let counts = gamesCounts formatMetrics; acc = accuracy formatMetrics in
      if overallWinrate formatMetrics < 0 \<or> overallWinrate formatMetrics > 100 then False
      else if gc_total counts \<noteq> gc_wins counts + gc_losses counts + gc_draws counts then False
      else if highAccuracyGames acc > gamesWithAccuracy acc then False
      else if js_less (highAccuracyPercentage acc) 0 \<or>
              js_greater (highAccuracyPercentage acc) 100 then False
      else validateMetrics_loop rest)"

text \<open>\<open>!metrics.accountAge\<close> holds of the number zero.\<close>

definition validateMetrics :: "player_metrics \<Rightarrow> bool" where
  "validateMetrics metrics =
     (if accountAge metrics = 0 \<or> accountAge metrics < 0 then False
      else if length (formats metrics) = 0 then False
      else validateMetrics_loop (formats metrics))"

section \<open>Opponent history (background/background.js)\<close>

record history_entry =
  he_username :: string
  he_score :: int
  he_format :: "string option"
  he_riskLevel :: risk_level
  he_analyzedAt :: string

record opponent_data = risk_score_result +
  riskLevel :: risk_level
  analyzedAt :: string

record background_state =
  currentOpponentData :: "opponent_data option"
  opponentHistory :: "history_entry list"
  storage_opponentHistory :: "history_entry list option"

text \<open>
  \<open>String.prototype.toLowerCase\<close> on the ASCII letters; every other character is kept.
  Chess.com usernames are made of ASCII letters, digits, hyphens and underscores.
\<close>

definition toLowerCase_char :: "char \<Rightarrow> char" where
  "toLowerCase_char c =
     (let k = (of_char c :: nat) in if 65 \<le> k \<and> k \<le> 90 then char_of (k + 32) else c)"

definition toLowerCase :: "string \<Rightarrow> string" where
  "toLowerCase str = map toLowerCase_char str"

text \<open>\<open>Array.prototype.findIndex\<close>: the first index whose element passes, else \<open>-1\<close>.\<close>

fun findIndex :: "('a \<Rightarrow> bool) \<Rightarrow> 'a list \<Rightarrow> int" where
  "findIndex P [] = - 1"
| "findIndex P (x # xs) =
     (if P x then 0 else (let i = findIndex P xs in if i < 0 then - 1 else i + 1))"

definition addToHistory :: "background_state \<Rightarrow> opponent_data \<Rightarrow> background_state" where
  "addToHistory st opponentData =
     (let existingIndex =
            findIndex (\<lambda>h. toLowerCase (he_username h) = toLowerCase (rs_username opponentData))
              (opponentHistory st);
          historyEntry =
            \<lparr> he_username = rs_username opponentData,
              he_score = ms_value (maxScore opponentData),
              he_format = ms_format (maxScore opponentData),
              he_riskLevel = riskLevel opponentData,
              he_analyzedAt = analyzedAt opponentData \<rparr>;
          history' =
            (if existingIndex \<ge> 0 then (opponentHistory st)[nat existingIndex := historyEntry]
             else
               (let unshifted = historyEntry # opponentHistory st
                in if length unshifted > 50 then take 50 unshifted else unshifted))
      in st\<lparr> opponentHistory := history', storage_opponentHistory := Some history' \<rparr>)"

text \<open>The state of the background script when it is loaded with an empty storage.\<close>

definition initial_state :: background_state where
  "initial_state =
     \<lparr> currentOpponentData = None, opponentHistory = [], storage_opponentHistory = None \<rparr>"

section \<open>Specification-side definitions\<close>

text \<open>
  The weight cache is consistent with a configuration when every entry is the weight that
  configuration gives. The empty cache is, and every function of the engine keeps it so
  as long as the configuration stays the same.
\<close>

definition weightCache_ok :: "config \<Rightarrow> weight_cache \<Rightarrow> bool" where
  "weightCache_ok cfg weightCache =
     (\<forall>n w. weightCache n = Some w \<longrightarrow>
        w = real n / (real n + WEIGHTING_K (THRESHOLDS cfg)))"

text \<open>The scoring formulas in the words of the specification, with its default constants.\<close>

definition weight_spec :: "nat \<Rightarrow> real" where
  "weight_spec n = real n / (real n + 20)"

definition winRateScore_spec :: "real \<Rightarrow> nat \<Rightarrow> real" where
  "winRateScore_spec winRate totalGames =
     (if winRate \<le> 5 / 10 then 0
      else if winRate \<le> 6 / 10 then (winRate - 5 / 10) / (1 / 10) * 50
      else if winRate \<le> 7 / 10 then 50 + (winRate - 6 / 10) / (1 / 10) * 50
      else 100 + ((winRate - 7 / 10) / (1 / 10)) * 100) * weight_spec totalGames"

definition accuracyScore_spec :: "jsnum \<Rightarrow> nat \<Rightarrow> real" where
  "accuracyScore_spec pct sampleCount =
     (case pct of
        NaN \<Rightarrow> 0
      | Num p \<Rightarrow>
          if sampleCount = 0 then 0
          else (if p \<le> 10 then 0
                else if p \<le> 20 then (p - 10) / 10 * 50
                else if p \<le> 30 then 50 + (p - 20) / 10 * 50
                else 100 + of_int \<lfloor>(p - 30) / 5\<rfloor> * 50) * weight_spec sampleCount)"

definition aggregate_spec :: "format_metrics \<Rightarrow> real" where
  "aggregate_spec formatMetrics =
     35 / 100 * winRateScore_spec (overallWinrate formatMetrics / 100)
                  (gc_total (gamesCounts formatMetrics)) +
     35 / 100 * winRateScore_spec (rg_winrate (recentGames formatMetrics) / 100)
                  (rg_total (recentGames formatMetrics)) +
     30 / 100 * accuracyScore_spec (highAccuracyPercentage (accuracy formatMetrics))
                  (gamesWithAccuracy (accuracy formatMetrics))"

definition accountAgeFactor_spec :: "real \<Rightarrow> real" where
  "accountAgeFactor_spec days = (if days \<le> 60 then 3 / 2 else 1)"

definition formatScore_spec :: "real \<Rightarrow> format_metrics \<Rightarrow> real" where
  "formatScore_spec days formatMetrics =
     min 100 (accountAgeFactor_spec days * aggregate_spec formatMetrics)"



text \<open>What a \<open>FormatRiskResult\<close> says apart from its explanation record.\<close>

definition format_and_score :: "format_score \<Rightarrow> string \<times> real" where
  "format_and_score e = (fs_format e, fs_score e)"

text \<open>
  The scenario of the specification: \<open>80\<close> percent of wins overall and recently, over \<open>20\<close>
  games each, no game with accuracy data, an account \<open>30\<close> days old.
\<close>

definition scenario_format :: format_metrics where
  "scenario_format =
     \<lparr> currentRating = 1500, overallWinrate = 80,
       gamesCounts = \<lparr> gc_total = 20, gc_wins = 16, gc_losses = 4, gc_draws = 0 \<rparr>,
       recentGames = \<lparr> rg_total = 20, rg_wins = 16, rg_losses = 4, rg_draws = 0,
                       rg_winrate = 80 \<rparr>,
       accuracy = \<lparr> gamesWithAccuracy = 0, highAccuracyGames = 0,
                    highAccuracyPercentage = Num 0 \<rparr> \<rparr>"

definition scenario_metrics :: player_metrics where
  "scenario_metrics =
     \<lparr> accountAge = 30, formats = [(''chess_blitz'', scenario_format)],
       pm_username = ''opponent'', pm_timestamp = ''2024-01-01T00:00:00.000Z'' \<rparr>"




text \<open>
  What the explanation record of a format says about the cap: it is there exactly with
  \<open>debug\<close>, and then the score is the value after the cap, the cap is taken of the value
  before it, and that value is the account-age factor times the weighted sum.
\<close>

definition factors_ok :: "bool \<Rightarrow> real \<Rightarrow> format_score \<Rightarrow> bool" where
  "factors_ok debug af e =
     (case fs_factors e of
        None \<Rightarrow> \<not> debug
      | Some f \<Rightarrow>
          debug \<and> fa_accountAgeFactor f = af \<and>
          calc_accountAgeFactor (fa_calculation f) = af \<and>
          calc_weightedSum (fa_calculation f) = fd_weightedSum f \<and>
          beforeCap (fa_calculation f) = af * fd_weightedSum f \<and>
          afterCap (fa_calculation f) = min 100 (beforeCap (fa_calculation f)) \<and>
          fs_score e = afterCap (fa_calculation f))"

text \<open>The data model of the specification: a valid \<open>FormatStats\<close> and \<open>PlayerMetrics\<close>.\<close>

definition FormatStats_spec :: "format_metrics \<Rightarrow> bool" where
  "FormatStats_spec fm =
     (currentRating fm = of_int \<lfloor>currentRating fm\<rfloor> \<and> 0 \<le> currentRating fm \<and>
      0 \<le> overallWinrate fm \<and> overallWinrate fm \<le> 100 \<and>
      gc_total (gamesCounts fm) =
        gc_wins (gamesCounts fm) + gc_losses (gamesCounts fm) + gc_draws (gamesCounts fm) \<and>
      highAccuracyGames (accuracy fm) \<le> gamesWithAccuracy (accuracy fm) \<and>
      (case highAccuracyPercentage (accuracy fm) of
         NaN \<Rightarrow> False
       | Num p \<Rightarrow> 0 \<le> p \<and> p \<le> 100))"

definition PlayerMetrics_spec :: "player_metrics \<Rightarrow> bool" where
  "PlayerMetrics_spec metrics =
     (accountAge metrics = of_int \<lfloor>accountAge metrics\<rfloor> \<and> 0 \<le> accountAge metrics \<and>
      formats metrics \<noteq> [] \<and>
      list_all (\<lambda>(format, fm). FormatStats_spec fm) (formats metrics))"

text \<open>
  The trimmed projection of an analysis that the history keeps, and an analysis with a
  given username, score and time.
\<close>

definition historyEntry_spec :: "opponent_data \<Rightarrow> history_entry" where
  "historyEntry_spec opponentData =
     \<lparr> he_username = rs_username opponentData,
       he_score = ms_value (maxScore opponentData),
       he_format = ms_format (maxScore opponentData),
       he_riskLevel = riskLevel opponentData,
       he_analyzedAt = analyzedAt opponentData \<rparr>"

definition analysis :: "string \<Rightarrow> int \<Rightarrow> string \<Rightarrow> opponent_data" where
  "analysis name value time =
     \<lparr> maxScore = \<lparr> ms_value = value, ms_format = Some ''chess_blitz'', ms_factors = None,
                      ms_reason = None \<rparr>,
       otherFormats = [], accountAgeScore = 1, accountAgeDays = 400,
       rs_username = name, rs_timestamp = time,
       riskLevel = getRiskLevel default_config (of_int value), analyzedAt = time \<rparr>"

text \<open>The invariant of the history list.\<close>

definition history_ok :: "history_entry list \<Rightarrow> bool" where
  "history_ok history =
     (length history \<le> 50 \<and> distinct (map (\<lambda>h. toLowerCase (he_username h)) history))"

section \<open>The confidence weight\<close>

lemma weightCache_ok_empty: "weightCache_ok cfg Map.empty"
  by (simp add: weightCache_ok_def)

lemma calculateWeight_fst:
  "weightCache_ok cfg c \<Longrightarrow>
   fst (calculateWeight cfg c n) = real n / (real n + WEIGHTING_K (THRESHOLDS cfg))"
  by (auto simp: calculateWeight_def weightCache_ok_def Let_def split: option.splits)

lemma calculateWeight_snd:
  "weightCache_ok cfg c \<Longrightarrow> weightCache_ok cfg (snd (calculateWeight cfg c n))"
  by (auto simp: calculateWeight_def weightCache_ok_def Let_def split: option.splits)

lemma weight_strict_mono:
  fixes K :: real
  assumes "0 < K" "n < m"
  shows "real n / (real n + K) < real m / (real m + K)"
proof -
  have "real n * (real m + K) < real m * (real n + K)"
    using assms by (simp add: algebra_simps)
  moreover have "0 < real n + K" "0 < real m + K" using assms by simp_all
  ultimately show ?thesis by (simp add: divide_less_eq pos_less_divide_eq mult.commute field_simps)
qed

lemma weight_tendsto:
  fixes K :: real
  assumes "0 < K"
  shows "(\<lambda>n. real n / (real n + K)) \<longlonglongrightarrow> 1"
proof -
  have eq: "real n / (real n + K) = 1 - K / (K + real n)" for n
  proof -
    have "0 < real n + K" using assms by (simp add: add_nonneg_pos)
    then show ?thesis by (simp add: field_simps)
  qed
  have top: "filterlim (\<lambda>n. K + real n) at_top sequentially"
    by (rule filterlim_tendsto_add_at_top[OF tendsto_const filterlim_real_sequentially])
  have "(\<lambda>n. K / (K + real n)) \<longlonglongrightarrow> 0"
    by (rule tendsto_divide_0[OF tendsto_const filterlim_at_top_imp_at_infinity[OF top]])
  then have "(\<lambda>n. 1 - K / (K + real n)) \<longlonglongrightarrow> 1 - 0"
    by (intro tendsto_diff tendsto_const)
  then show ?thesis by (simp add: eq)
qed

text \<open>
  Claim C4, as amended. For every sample size \<open>n\<close> and every positive constant \<open>K\<close>: when
  every entry of the weight cache was computed under the current \<open>K\<close> (the empty cache
  is such a cache), \<open>calculateWeight n\<close> returns \<open>n / (n + K)\<close> and leaves such a cache,
  so a repeated call returns the same value; the weight of \<open>0\<close> is \<open>0\<close>, the weight is
  strictly increasing in \<open>n\<close> and tends to \<open>1\<close>.
\<close>

theorem calculateWeight_consistent_cache:
  assumes K: "0 < WEIGHTING_K (THRESHOLDS cfg)"
    and ok: "weightCache_ok cfg weightCache"
  shows "fst (calculateWeight cfg weightCache n) = real n / (real n + WEIGHTING_K (THRESHOLDS cfg))
       \<and> weightCache_ok cfg (snd (calculateWeight cfg weightCache n))
       \<and> fst (calculateWeight cfg (snd (calculateWeight cfg weightCache n)) n)
           = fst (calculateWeight cfg weightCache n)
       \<and> fst (calculateWeight cfg weightCache 0) = 0
       \<and> (n < m \<longrightarrow> fst (calculateWeight cfg weightCache n) < fst (calculateWeight cfg weightCache m))
       \<and> (\<lambda>k. fst (calculateWeight cfg weightCache k)) \<longlonglongrightarrow> 1"
proof -
  have f: "fst (calculateWeight cfg weightCache k) = real k / (real k + WEIGHTING_K (THRESHOLDS cfg))" for k
    using ok by (rule calculateWeight_fst)
  have s: "weightCache_ok cfg (snd (calculateWeight cfg weightCache n))"
    using ok by (rule calculateWeight_snd)
  have again: "fst (calculateWeight cfg (snd (calculateWeight cfg weightCache n)) n)
           = fst (calculateWeight cfg weightCache n)"
    by (simp add: calculateWeight_fst[OF s] f)
  have mono: "n < m \<longrightarrow> fst (calculateWeight cfg weightCache n) < fst (calculateWeight cfg weightCache m)"
    using weight_strict_mono[OF K] by (simp add: f)
  have lim: "(\<lambda>k. fst (calculateWeight cfg weightCache k)) \<longlonglongrightarrow> 1"
    using weight_tendsto[OF K] by (simp add: f)
  show ?thesis using f[of n] s again mono lim by (simp add: f)
qed

text \<open>The statement at the default configuration, from the empty cache.\<close>

theorem calculateWeight_consistent_cache_witness:
  "0 < WEIGHTING_K (THRESHOLDS default_config) \<and> weightCache_ok default_config Map.empty
   \<and> fst (calculateWeight default_config Map.empty 20) = 1 / 2
   \<and> fst (calculateWeight default_config (snd (calculateWeight default_config Map.empty 20)) 20) = 1 / 2
   \<and> fst (calculateWeight default_config Map.empty 0) = 0
   \<and> fst (calculateWeight default_config Map.empty 20) < fst (calculateWeight default_config Map.empty 21)"
proof -
  have K: "0 < WEIGHTING_K (THRESHOLDS default_config)" by (simp add: default_config_def)
  have ok: "weightCache_ok default_config Map.empty" by (simp add: weightCache_ok_def)
  show ?thesis
    using K ok calculateWeight_consistent_cache[OF K ok, of 20 21]
    by (simp add: default_config_def)
qed

text \<open>
  Claim C4 as stated fails: the cache is keyed by \<open>n\<close> alone and is never invalidated.
  After \<open>calculateWeight 20\<close> under \<open>K = 20\<close> has cached \<open>1 / 2\<close>, the same call under
  \<open>K = 10\<close> returns the cached \<open>1 / 2\<close>, not \<open>20 / (20 + 10)\<close>.
\<close>

theorem calculateWeight_stale_after_K_change:
  "fst (calculateWeight
          (default_config\<lparr> THRESHOLDS := (THRESHOLDS default_config)\<lparr> WEIGHTING_K := 10 \<rparr> \<rparr>)
          (snd (calculateWeight default_config Map.empty 20)) 20)
     \<noteq> 20 / (20 + 10)"
  by (simp add: calculateWeight_def default_config_def Let_def)

section \<open>The account-age factor\<close>

text \<open>
  Claim C6. For every account age in days, the factor is \<open>1.5\<close> up to and including
  \<open>60\<close> days and \<open>1\<close> above: \<open>59\<close> and \<open>60\<close> give \<open>1.5\<close>, \<open>61\<close> gives \<open>1\<close>.
\<close>

theorem calculateAccountAgeFactor_step:
  "calculateAccountAgeFactor default_config days
     = (if days \<le> 60 then 15 / 10 else 1)
   \<and> calculateAccountAgeFactor default_config 59 = 15 / 10
   \<and> calculateAccountAgeFactor default_config 60 = 15 / 10
   \<and> calculateAccountAgeFactor default_config 61 = 1"
  by (simp add: calculateAccountAgeFactor_def default_config_def)

section \<open>The risk level\<close>

text \<open>
  Claim C7. For every integer score from \<open>0\<close> to \<open>100\<close>, \<open>getRiskLevel\<close> returns \<open>LOW\<close>
  up to \<open>30\<close>, \<open>MODERATE\<close> from \<open>31\<close> to \<open>50\<close>, \<open>HIGH\<close> from \<open>51\<close> to \<open>70\<close> and
  \<open>VERY_HIGH\<close> from \<open>71\<close> to \<open>100\<close>; the six boundary values are classified as listed.
  The function reads the configuration and its argument only.
\<close>

theorem getRiskLevel_tiers:
  assumes "0 \<le> score" "score \<le> 100"
  shows "(score \<le> 30 \<longrightarrow>
            getRiskLevel default_config (of_int score) = LOW (RISK_LEVELS default_config))
       \<and> (31 \<le> score \<and> score \<le> 50 \<longrightarrow>
            getRiskLevel default_config (of_int score) = MODERATE (RISK_LEVELS default_config))
       \<and> (51 \<le> score \<and> score \<le> 70 \<longrightarrow>
            getRiskLevel default_config (of_int score) = HIGH (RISK_LEVELS default_config))
       \<and> (71 \<le> score \<and> score \<le> 100 \<longrightarrow>
            getRiskLevel default_config (of_int score) = VERY_HIGH (RISK_LEVELS default_config))
       \<and> getRiskLevel default_config 30 = LOW (RISK_LEVELS default_config)
       \<and> getRiskLevel default_config 31 = MODERATE (RISK_LEVELS default_config)
       \<and> getRiskLevel default_config 50 = MODERATE (RISK_LEVELS default_config)
       \<and> getRiskLevel default_config 51 = HIGH (RISK_LEVELS default_config)
       \<and> getRiskLevel default_config 70 = HIGH (RISK_LEVELS default_config)
       \<and> getRiskLevel default_config 71 = VERY_HIGH (RISK_LEVELS default_config)"
  using assms by (auto simp: getRiskLevel_def default_config_def)

text \<open>The score \<open>42\<close> is a moderate risk.\<close>

theorem getRiskLevel_tiers_witness:
  "(0::int) \<le> 42 \<and> (42::int) \<le> 100
   \<and> rl_label (getRiskLevel default_config (of_int 42)) = ''Moderate Risk''"
  using getRiskLevel_tiers[of 42] by (simp add: default_config_def)

section \<open>The player's rating and the accuracy sub-score\<close>

text \<open>
  Claim C10. Two calls of \<open>calculateHighAccuracyScore\<close> with the same accuracy data and
  different player ratings return the same score and the same debug record (and leave the
  same cache). The rating acts upstream, in the normalizer's classification of a game as
  a high-accuracy game: an accuracy of \<open>85\<close> is high for a player rated \<open>1400\<close> and not
  for a player rated \<open>1600\<close>.
\<close>

theorem calculateHighAccuracyScore_ignores_rating:
  "calculateHighAccuracyScore cfg weightCache accuracyData playerRating
     = calculateHighAccuracyScore cfg weightCache accuracyData playerRating'
   \<and> isHighAccuracyGame default_config
        \<lparr> g_timeClass = ''blitz'', g_playerRating = 1400, g_result = ''win'',
          g_accuracy = Some 85, g_rated = True \<rparr>
   \<and> \<not> isHighAccuracyGame default_config
        \<lparr> g_timeClass = ''blitz'', g_playerRating = 1600, g_result = ''win'',
          g_accuracy = Some 85, g_rated = True \<rparr>"
  by (simp add: calculateHighAccuracyScore_def isHighAccuracyGame_def default_config_def)

section \<open>The sub-scores at the default configuration\<close>

lemma K_default: "WEIGHTING_K (THRESHOLDS default_config) = 20"
  by (simp add: default_config_def)

lemma calculateWeight_default:
  "weightCache_ok default_config c \<Longrightarrow> fst (calculateWeight default_config c n) = weight_spec n"
  by (simp add: calculateWeight_fst K_default weight_spec_def)

lemma WINRATE_default:
  "WINRATE_THRESHOLDS default_config =
     \<lparr> LOW_WINRATE_THRESHOLD = 5 / 10, MEDIUM_WINRATE_THRESHOLD = 6 / 10,
       HIGH_WINRATE_THRESHOLD = 7 / 10, BASE_SCORE = 50, EXTENDED_SCORE = 100,
       SCALE_FACTOR = 1 / 10 \<rparr>"
  by (simp add: default_config_def)

lemma HIGH_ACCURACY_default:
  "HIGH_ACCURACY_THRESHOLDS default_config =
     \<lparr> MODERATE_SUSPICION_THRESHOLD = 10, HIGH_SUSPICION_THRESHOLD = 20,
       EXTREME_SUSPICION_THRESHOLD = 30, MODERATE_MAX_SCORE = 50, HIGH_MAX_SCORE = 100,
       EXTREME_SCORE_INCREMENT = 50, EXTREME_SCORE_STEP = 5 \<rparr>"
  by (simp add: default_config_def)

lemma calculateWinRateScore_fst:
  assumes "weightCache_ok default_config c"
  shows "fst (calculateWinRateScore default_config c w n) = winRateScore_spec w n"
  using calculateWeight_default[OF assms, of n]
  by (simp add: calculateWinRateScore_def winRateScore_spec_def WINRATE_default Let_def
      split_beta)

lemma calculateWinRateScore_snd:
  assumes "weightCache_ok cfg c"
  shows "weightCache_ok cfg (snd (calculateWinRateScore cfg c w n))"
  using assms calculateWeight_snd[OF assms, of n]
  by (simp add: calculateWinRateScore_def Let_def split_beta)

lemma calculateHighAccuracyScore_fst:
  assumes "weightCache_ok default_config c"
  shows "ar_score (fst (calculateHighAccuracyScore default_config c a r))
           = accuracyScore_spec (highAccuracyPercentage a) (gamesWithAccuracy a)"
  using calculateWeight_default[OF assms, of "gamesWithAccuracy a"]
  by (simp add: calculateHighAccuracyScore_def accuracyScore_spec_def HIGH_ACCURACY_default
      Let_def split_beta split: jsnum.splits)

lemma calculateHighAccuracyScore_snd:
  assumes "weightCache_ok cfg c"
  shows "weightCache_ok cfg (snd (calculateHighAccuracyScore cfg c a r))"
  using assms calculateWeight_snd[OF assms, of "gamesWithAccuracy a"]
  by (simp add: calculateHighAccuracyScore_def Let_def split_beta split: jsnum.splits)

lemma winRateScore_unbounded:
  assumes n: "0 < n"
  shows "\<exists>w. B < winRateScore_spec w n"
proof -
  define q where "q = real n / (real n + 20)"
  have q: "0 < q" using n by (simp add: q_def)
  define w :: real where "w = 7 / 10 + (\<bar>B\<bar> / q + 1) / 1000"
  have "0 \<le> \<bar>B\<bar> / q" using q by simp
  then have w: "7 / 10 < w" by (simp add: w_def)
  have "winRateScore_spec w n = (100 + (w - 7 / 10) * 1000) * q"
    using w by (simp add: winRateScore_spec_def weight_spec_def q_def)
  also have "\<dots> = (101 + \<bar>B\<bar> / q) * q" by (simp add: w_def)
  also have "\<dots> = 101 * q + \<bar>B\<bar>" using q by (simp add: algebra_simps)
  finally have "winRateScore_spec w n = 101 * q + \<bar>B\<bar>" .
  moreover have "B < 101 * q + \<bar>B\<bar>" using q by linarith
  ultimately show ?thesis by (intro exI[of _ w]) simp
qed

text \<open>
  Claim C2. From a cache consistent with the configuration, for every win rate and every
  number of games: the raw win-rate score is \<open>0\<close> up to \<open>0.5\<close>, a linear ramp from \<open>0\<close>
  to \<open>50\<close> on \<open>(0.5, 0.6]\<close>, a linear ramp from \<open>50\<close> to \<open>100\<close> on \<open>(0.6, 0.7]\<close> and
  \<open>100 + ((winRate - 0.7) / 0.1) * 100\<close> above \<open>0.7\<close>, which is unbounded above; the
  returned sub-score is the raw score times the confidence weight of the number of games.
\<close>

theorem calculateWinRateScore_piecewise:
  assumes ok: "weightCache_ok default_config weightCache"
  shows "(winRate \<le> 5 / 10 \<longrightarrow>
            fst (calculateWinRateScore default_config weightCache winRate totalGames) = 0)
       \<and> (5 / 10 < winRate \<and> winRate \<le> 6 / 10 \<longrightarrow>
            fst (calculateWinRateScore default_config weightCache winRate totalGames)
              = ((winRate - 5 / 10) / (6 / 10 - 5 / 10) * 50)
                * (real totalGames / (real totalGames + 20)))
       \<and> (6 / 10 < winRate \<and> winRate \<le> 7 / 10 \<longrightarrow>
            fst (calculateWinRateScore default_config weightCache winRate totalGames)
              = (50 + (winRate - 6 / 10) / (7 / 10 - 6 / 10) * (100 - 50))
                * (real totalGames / (real totalGames + 20)))
       \<and> (7 / 10 < winRate \<longrightarrow>
            fst (calculateWinRateScore default_config weightCache winRate totalGames)
              = (100 + ((winRate - 7 / 10) / (1 / 10)) * 100)
                * (real totalGames / (real totalGames + 20)))
       \<and> (0 < totalGames \<longrightarrow>
            (\<forall>B. \<exists>w. B < fst (calculateWinRateScore default_config weightCache w totalGames)))
       \<and> weightCache_ok default_config
            (snd (calculateWinRateScore default_config weightCache winRate totalGames))"
proof -
  have f: "fst (calculateWinRateScore default_config weightCache w totalGames)
             = winRateScore_spec w totalGames" for w
    using ok by (rule calculateWinRateScore_fst)
  have unb: "0 < totalGames \<longrightarrow>
            (\<forall>B. \<exists>w. B < fst (calculateWinRateScore default_config weightCache w totalGames))"
    using winRateScore_unbounded[of totalGames] by (simp add: f)
  have s: "weightCache_ok default_config
            (snd (calculateWinRateScore default_config weightCache winRate totalGames))"
    using ok by (rule calculateWinRateScore_snd)
  show ?thesis
    using unb s by (simp add: f winRateScore_spec_def weight_spec_def)
qed

text \<open>One win rate in each of the four ranges, with \<open>20\<close> games (weight \<open>1 / 2\<close>).\<close>

theorem calculateWinRateScore_piecewise_witness:
  "weightCache_ok default_config Map.empty
   \<and> fst (calculateWinRateScore default_config Map.empty (4 / 10) 20) = 0
   \<and> fst (calculateWinRateScore default_config Map.empty (55 / 100) 20) = 25 / 2
   \<and> fst (calculateWinRateScore default_config Map.empty (65 / 100) 20) = 75 / 2
   \<and> fst (calculateWinRateScore default_config Map.empty (8 / 10) 20) = 100"
proof -
  have ok: "weightCache_ok default_config Map.empty" by (rule weightCache_ok_empty)
  show ?thesis
    using ok
      calculateWinRateScore_piecewise[OF ok, of "4 / 10" 20]
      calculateWinRateScore_piecewise[OF ok, of "55 / 100" 20]
      calculateWinRateScore_piecewise[OF ok, of "65 / 100" 20]
      calculateWinRateScore_piecewise[OF ok, of "8 / 10" 20]
    by simp
qed

lemma calculateHighAccuracyScore_default:
  assumes ok: "weightCache_ok default_config c"
  shows "fst (calculateHighAccuracyScore default_config c a r) =
     (case highAccuracyPercentage a of
        NaN \<Rightarrow> \<lparr> ar_score = 0, ar_debug = \<lparr> ad_baseScore = 0, ad_sampleWeight = 0,
                   ad_reason = Some ''no_accuracy_data'' \<rparr> \<rparr>
      | Num pct \<Rightarrow>
          if gamesWithAccuracy a = 0 then
            \<lparr> ar_score = 0, ar_debug = \<lparr> ad_baseScore = 0, ad_sampleWeight = 0,
                   ad_reason = Some ''no_accuracy_data'' \<rparr> \<rparr>
          else if pct \<le> 10 then
            \<lparr> ar_score = 0, ar_debug = \<lparr> ad_baseScore = 0, ad_sampleWeight = 0,
                   ad_reason = Some ''below_threshold'' \<rparr> \<rparr>
          else
            (let b = (if pct > 30 then 100 + of_int \<lfloor>(pct - 30) / 5\<rfloor> * 50
                      else if pct > 20 then 50 + (pct - 20) / 10 * 50
                      else (pct - 10) / 10 * 50)
             in \<lparr> ar_score = b * weight_spec (gamesWithAccuracy a),
                  ar_debug = \<lparr> ad_baseScore = b,
                               ad_sampleWeight = weight_spec (gamesWithAccuracy a),
                               ad_reason = None \<rparr> \<rparr>))"
  using calculateWeight_default[OF ok, of "gamesWithAccuracy a"]
  by (simp add: calculateHighAccuracyScore_def HIGH_ACCURACY_default Let_def split_beta
      split: jsnum.splits)

lemma accuracy_baseScore_unbounded:
  fixes B :: real
  shows "\<exists>p::real. 30 < p \<and> B < 100 + of_int \<lfloor>(p - 30) / 5\<rfloor> * 50"
proof -
  define k :: int where "k = \<lceil>\<bar>B\<bar>\<rceil> + 1"
  have k: "1 \<le> k" "\<bar>B\<bar> < of_int k" by (simp_all add: k_def) linarith
  define p :: real where "p = 30 + 5 * of_int k"
  have fl: "\<lfloor>(p - 30) / 5\<rfloor> = k" by (simp add: p_def)
  have "30 < p" using k by (simp add: p_def)
  moreover have "B < 100 + of_int k * 50" using k by linarith
  ultimately show ?thesis using fl by (intro exI[of _ p]) simp
qed

text \<open>
  Claim C3. From a cache consistent with the configuration, for every percentage and
  sample count: the score is \<open>0\<close> with reason \<open>no_accuracy_data\<close> when the sample count is
  \<open>0\<close> or the percentage is not a number; otherwise \<open>0\<close> with reason \<open>below_threshold\<close>
  when the percentage is at most \<open>10\<close>; otherwise the raw score is a linear ramp from \<open>0\<close>
  to \<open>50\<close> on \<open>(10, 20]\<close>, a linear ramp from \<open>50\<close> to \<open>100\<close> on \<open>(20, 30]\<close> and the step
  function \<open>100 + floor ((pct - 30) / 5) * 50\<close> above \<open>30\<close>, which is unbounded above; the
  sub-score is the raw score times the confidence weight of the sample count.
\<close>

theorem calculateHighAccuracyScore_piecewise:
  assumes ok: "weightCache_ok default_config weightCache"
  shows
    "(let r = fst (calculateHighAccuracyScore default_config weightCache accuracyData playerRating);
          n = gamesWithAccuracy accuracyData;
          w = real n / (real n + 20)
      in (n = 0 \<or> highAccuracyPercentage accuracyData = NaN \<longrightarrow>
            ar_score r = 0 \<and> ad_reason (ar_debug r) = Some ''no_accuracy_data'')
       \<and> (n \<noteq> 0 \<and> highAccuracyPercentage accuracyData = Num pct \<and> pct \<le> 10 \<longrightarrow>
            ar_score r = 0 \<and> ad_reason (ar_debug r) = Some ''below_threshold'')
       \<and> (n \<noteq> 0 \<and> highAccuracyPercentage accuracyData = Num pct \<and> 10 < pct \<and> pct \<le> 20 \<longrightarrow>
            ad_baseScore (ar_debug r) = (pct - 10) / (20 - 10) * 50)
       \<and> (n \<noteq> 0 \<and> highAccuracyPercentage accuracyData = Num pct \<and> 20 < pct \<and> pct \<le> 30 \<longrightarrow>
            ad_baseScore (ar_debug r) = 50 + (pct - 20) / (30 - 20) * (100 - 50))
       \<and> (n \<noteq> 0 \<and> highAccuracyPercentage accuracyData = Num pct \<and> 30 < pct \<longrightarrow>
            ad_baseScore (ar_debug r) = 100 + of_int \<lfloor>(pct - 30) / 5\<rfloor> * 50)
       \<and> (n \<noteq> 0 \<and> highAccuracyPercentage accuracyData = Num pct \<and> 10 < pct \<longrightarrow>
            ar_score r = ad_baseScore (ar_debug r) * w \<and> ad_sampleWeight (ar_debug r) = w \<and>
            ad_reason (ar_debug r) = None)
       \<and> (n \<noteq> 0 \<longrightarrow>
            (\<forall>B. \<exists>p. B < ad_baseScore (ar_debug (fst (calculateHighAccuracyScore default_config
                 weightCache (accuracyData\<lparr> highAccuracyPercentage := Num p \<rparr>) playerRating)))))
       \<and> weightCache_ok default_config
            (snd (calculateHighAccuracyScore default_config weightCache accuracyData playerRating)))"
proof -
  note f = calculateHighAccuracyScore_default[OF ok]
  have unb: "gamesWithAccuracy accuracyData \<noteq> 0 \<longrightarrow>
            (\<forall>B. \<exists>p. B < ad_baseScore (ar_debug (fst (calculateHighAccuracyScore default_config
                 weightCache (accuracyData\<lparr> highAccuracyPercentage := Num p \<rparr>) playerRating))))"
  proof (intro impI allI)
    fix B :: real
    assume n: "gamesWithAccuracy accuracyData \<noteq> 0"
    obtain p :: real where p: "30 < p" "B < 100 + of_int \<lfloor>(p - 30) / 5\<rfloor> * 50"
      using accuracy_baseScore_unbounded[of B] by blast
    show "\<exists>p. B < ad_baseScore (ar_debug (fst (calculateHighAccuracyScore default_config
                 weightCache (accuracyData\<lparr> highAccuracyPercentage := Num p \<rparr>) playerRating)))"
      using n p by (intro exI[of _ p]) (simp add: f Let_def)
  qed
  have s: "weightCache_ok default_config
            (snd (calculateHighAccuracyScore default_config weightCache accuracyData playerRating))"
    using ok by (rule calculateHighAccuracyScore_snd)
  show ?thesis
    unfolding Let_def
    apply (intro conjI)
    subgoal by (auto simp: f split: jsnum.splits)
    subgoal by (simp add: f Let_def)
    subgoal by (simp add: f Let_def)
    subgoal by (simp add: f Let_def)
    subgoal by (simp add: f Let_def)
    subgoal by (simp add: f weight_spec_def Let_def)
    subgoal using unb by simp
    subgoal using s by simp
    done
qed

text \<open>One input for each of the five cases, with \<open>20\<close> games where the sample is not empty.\<close>

theorem calculateHighAccuracyScore_piecewise_witness:
  "weightCache_ok default_config Map.empty
   \<and> ad_reason (ar_debug (fst (calculateHighAccuracyScore default_config Map.empty
        \<lparr> gamesWithAccuracy = 0, highAccuracyGames = 0, highAccuracyPercentage = Num 40 \<rparr> 1500)))
       = Some ''no_accuracy_data''
   \<and> ad_reason (ar_debug (fst (calculateHighAccuracyScore default_config Map.empty
        \<lparr> gamesWithAccuracy = 20, highAccuracyGames = 1, highAccuracyPercentage = Num 5 \<rparr> 1500)))
       = Some ''below_threshold''
   \<and> ar_score (fst (calculateHighAccuracyScore default_config Map.empty
        \<lparr> gamesWithAccuracy = 20, highAccuracyGames = 3, highAccuracyPercentage = Num 15 \<rparr> 1500))
       = 25 / 2
   \<and> ar_score (fst (calculateHighAccuracyScore default_config Map.empty
        \<lparr> gamesWithAccuracy = 20, highAccuracyGames = 5, highAccuracyPercentage = Num 25 \<rparr> 1500))
       = 75 / 2
   \<and> ar_score (fst (calculateHighAccuracyScore default_config Map.empty
        \<lparr> gamesWithAccuracy = 20, highAccuracyGames = 8, highAccuracyPercentage = Num 42 \<rparr> 1500))
       = 100"
proof -
  have ok: "weightCache_ok default_config Map.empty" by (rule weightCache_ok_empty)
  show ?thesis
    using ok
      calculateHighAccuracyScore_piecewise[OF ok,
        where accuracyData = "\<lparr> gamesWithAccuracy = 0, highAccuracyGames = 0, highAccuracyPercentage = Num 40 \<rparr>" and pct = 40 and playerRating = 1500]
      calculateHighAccuracyScore_piecewise[OF ok,
        where accuracyData = "\<lparr> gamesWithAccuracy = 20, highAccuracyGames = 1, highAccuracyPercentage = Num 5 \<rparr>" and pct = 5 and playerRating = 1500]
      calculateHighAccuracyScore_piecewise[OF ok,
        where accuracyData = "\<lparr> gamesWithAccuracy = 20, highAccuracyGames = 3, highAccuracyPercentage = Num 15 \<rparr>" and pct = 15 and playerRating = 1500]
      calculateHighAccuracyScore_piecewise[OF ok,
        where accuracyData = "\<lparr> gamesWithAccuracy = 20, highAccuracyGames = 5, highAccuracyPercentage = Num 25 \<rparr>" and pct = 25 and playerRating = 1500]
      calculateHighAccuracyScore_piecewise[OF ok,
        where accuracyData = "\<lparr> gamesWithAccuracy = 20, highAccuracyGames = 8, highAccuracyPercentage = Num 42 \<rparr>" and pct = 42 and playerRating = 1500]
    by (simp add: Let_def)
qed

section \<open>The per-format score\<close>

lemma WEIGHTS_default:
  "WEIGHTS default_config =
     \<lparr> OVERALL_WINRATE = 35 / 100, RECENT_WINRATE = 35 / 100, HIGH_ACCURACY = 30 / 100 \<rparr>"
  by (simp add: default_config_def)

lemma MIN_GAMES_default: "MIN_GAMES (THRESHOLDS default_config) = 5"
  by (simp add: default_config_def)

lemma calculateFormatRiskScore_fst:
  assumes ok: "weightCache_ok default_config c"
  shows "fst (fst (calculateFormatRiskScore default_config c fm debug)) = aggregate_spec fm"
proof -
  let ?o = "calculateWinRateScore default_config c (overallWinrate fm / 100)
              (gc_total (gamesCounts fm))"
  let ?r = "calculateWinRateScore default_config (snd ?o) (rg_winrate (recentGames fm) / 100)
              (rg_total (recentGames fm))"
  have ok1: "weightCache_ok default_config (snd ?o)"
    using ok by (rule calculateWinRateScore_snd)
  have ok2: "weightCache_ok default_config (snd ?r)"
    using ok1 by (rule calculateWinRateScore_snd)
  show ?thesis
    by (simp add: calculateFormatRiskScore_def Let_def split_beta WEIGHTS_default
        aggregate_spec_def calculateWinRateScore_fst[OF ok] calculateWinRateScore_fst[OF ok1]
        calculateHighAccuracyScore_fst[OF ok2])
qed

lemma calculateFormatRiskScore_snd:
  assumes ok: "weightCache_ok cfg c"
  shows "weightCache_ok cfg (snd (calculateFormatRiskScore cfg c fm debug))"
proof -
  let ?o = "calculateWinRateScore cfg c (overallWinrate fm / 100) (gc_total (gamesCounts fm))"
  let ?r = "calculateWinRateScore cfg (snd ?o) (rg_winrate (recentGames fm) / 100)
              (rg_total (recentGames fm))"
  have ok1: "weightCache_ok cfg (snd ?o)"
    using ok by (rule calculateWinRateScore_snd)
  have ok2: "weightCache_ok cfg (snd ?r)"
    using ok1 by (rule calculateWinRateScore_snd)
  show ?thesis
    using calculateHighAccuracyScore_snd[OF ok2, of "accuracy fm" "currentRating fm"]
    by (simp add: calculateFormatRiskScore_def Let_def split_beta)
qed

lemma weight_spec_nonneg: "0 \<le> weight_spec n"
  by (simp add: weight_spec_def)

lemma winRateScore_spec_nonneg: "0 \<le> winRateScore_spec w n"
  unfolding winRateScore_spec_def
  by (intro mult_nonneg_nonneg weight_spec_nonneg) simp

lemma accuracyScore_spec_nonneg: "0 \<le> accuracyScore_spec p n"
proof (cases p)
  case (Num x)
  have "0 \<le> (if x \<le> 10 then 0
                else if x \<le> 20 then (x - 10) / 10 * 50
                else if x \<le> 30 then 50 + (x - 20) / 10 * 50
                else 100 + of_int \<lfloor>(x - 30) / 5\<rfloor> * 50)"
  proof -
    have "30 < x \<Longrightarrow> (0::real) \<le> of_int \<lfloor>(x - 30) / 5\<rfloor>" by simp
    then show ?thesis by auto
  qed
  then show ?thesis
    using weight_spec_nonneg[of n] by (simp add: accuracyScore_spec_def Num)
next
  case NaN
  then show ?thesis by (simp add: accuracyScore_spec_def)
qed

lemma aggregate_spec_nonneg: "0 \<le> aggregate_spec fm"
  unfolding aggregate_spec_def
  by (intro add_nonneg_nonneg mult_nonneg_nonneg winRateScore_spec_nonneg
      accuracyScore_spec_nonneg) simp_all

lemma formatScore_spec_bounds: "0 \<le> formatScore_spec days fm \<and> formatScore_spec days fm \<le> 100"
proof -
  have "0 \<le> accountAgeFactor_spec days" by (simp add: accountAgeFactor_spec_def)
  then have "0 \<le> accountAgeFactor_spec days * aggregate_spec fm"
    using aggregate_spec_nonneg by (rule mult_nonneg_nonneg)
  then show ?thesis by (simp add: formatScore_spec_def)
qed

lemma formatScores_loop_spec:
  assumes "weightCache_ok default_config c"
  shows "map (\<lambda>e. (fs_format e, fs_score e)) (fst (formatScores_loop default_config debug af c fmts))
           = map (\<lambda>(format, fm). (format, min 100 (af * aggregate_spec fm)))
               (filter (\<lambda>(format, fm). 5 \<le> rg_total (recentGames fm)) fmts)
       \<and> weightCache_ok default_config (snd (formatScores_loop default_config debug af c fmts))"
  using assms
proof (induction fmts arbitrary: c)
  case Nil
  then show ?case by simp
next
  case (Cons p fmts)
  obtain format fm where p: "p = (format, fm)" by (cases p)
  show ?case
  proof (cases "5 \<le> rg_total (recentGames fm)")
    case False
    then show ?thesis using Cons.IH[OF Cons.prems] by (simp add: p MIN_GAMES_default)
  next
    case True
    let ?res = "calculateFormatRiskScore default_config c fm debug"
    have ok1: "weightCache_ok default_config (snd ?res)"
      using Cons.prems by (rule calculateFormatRiskScore_snd)
    have raw: "fst (fst ?res) = aggregate_spec fm"
      using Cons.prems by (rule calculateFormatRiskScore_fst)
    show ?thesis
      using True Cons.IH[OF ok1] raw
      by (simp add: p MIN_GAMES_default Let_def split_beta)
  qed
qed
lemma calculateAccountAgeFactor_default:
  "calculateAccountAgeFactor default_config days = accountAgeFactor_spec days"
  by (simp add: calculateAccountAgeFactor_def accountAgeFactor_spec_def default_config_def)

lemma calculateFormatRiskScore_debug:
  "(case snd (fst (calculateFormatRiskScore cfg c fm debug)) of
      None \<Rightarrow> \<not> debug
    | Some d \<Rightarrow> debug \<and> fd_weightedSum d = fst (fst (calculateFormatRiskScore cfg c fm debug)))"
  by (simp add: calculateFormatRiskScore_def Let_def split_beta)

lemma formatScores_loop_factors:
  "list_all (factors_ok debug af) (fst (formatScores_loop cfg debug af c fmts))"
proof (induction fmts arbitrary: c)
  case Nil
  then show ?case by simp
next
  case (Cons p fmts)
  obtain format fm where p: "p = (format, fm)" by (cases p)
  show ?case
    using Cons.IH calculateFormatRiskScore_debug[where cfg = cfg and c = c and fm = fm and debug = debug]
    by (simp add: p Let_def split_beta factors_ok_def format_debug.extend_def
        split: option.splits)
qed

text \<open>
  Claim C1. From a cache consistent with the configuration, for every \<open>FormatStats\<close>: the
  weighted sum is \<open>0.35\<close> times the overall win-rate sub-score plus \<open>0.35\<close> times the recent
  win-rate sub-score plus \<open>0.30\<close> times the high-accuracy sub-score, and the score of every
  eligible format is the minimum of \<open>100\<close> and the account-age factor times that sum: the
  cap is taken once, of the product. Every per-format score lies between \<open>0\<close> and \<open>100\<close>,
  and with \<open>debug\<close> the explanation record shows the same computation.
\<close>

theorem formatScore_formula:
  assumes ok: "weightCache_ok default_config weightCache"
  shows
    "fst (fst (calculateFormatRiskScore default_config weightCache formatMetrics debug))
       = 35 / 100 * winRateScore_spec (overallWinrate formatMetrics / 100)
                      (gc_total (gamesCounts formatMetrics))
       + 35 / 100 * winRateScore_spec (rg_winrate (recentGames formatMetrics) / 100)
                      (rg_total (recentGames formatMetrics))
       + 30 / 100 * accuracyScore_spec (highAccuracyPercentage (accuracy formatMetrics))
                      (gamesWithAccuracy (accuracy formatMetrics))
     \<and> (let af = calculateAccountAgeFactor default_config (accountAge metrics);
             fs = fst (formatScores_loop default_config debug af weightCache (formats metrics))
         in map format_and_score fs
              = map (\<lambda>(format, fm). (format, min 100 (af * aggregate_spec fm)))
                  (filter (\<lambda>(format, fm). 5 \<le> rg_total (recentGames fm)) (formats metrics))
          \<and> list_all (\<lambda>e. 0 \<le> fs_score e \<and> fs_score e \<le> 100) fs
          \<and> list_all (factors_ok debug af) fs)"
proof -
  define af where "af = calculateAccountAgeFactor default_config (accountAge metrics)"
  define fs where
    "fs = fst (formatScores_loop default_config debug af weightCache (formats metrics))"
  have sum: "fst (fst (calculateFormatRiskScore default_config weightCache formatMetrics debug))
       = 35 / 100 * winRateScore_spec (overallWinrate formatMetrics / 100)
                      (gc_total (gamesCounts formatMetrics))
       + 35 / 100 * winRateScore_spec (rg_winrate (recentGames formatMetrics) / 100)
                      (rg_total (recentGames formatMetrics))
       + 30 / 100 * accuracyScore_spec (highAccuracyPercentage (accuracy formatMetrics))
                      (gamesWithAccuracy (accuracy formatMetrics))"
    by (simp add: calculateFormatRiskScore_fst[OF ok] aggregate_spec_def)
  have m: "map format_and_score fs
              = map (\<lambda>(format, fm). (format, min 100 (af * aggregate_spec fm)))
                  (filter (\<lambda>(format, fm). 5 \<le> rg_total (recentGames fm)) (formats metrics))"
    using formatScores_loop_spec[OF ok, of debug af "formats metrics"]
    by (simp add: fs_def format_and_score_def[abs_def])
  have af: "0 \<le> af"
    by (simp add: af_def calculateAccountAgeFactor_default accountAgeFactor_spec_def)
  have b: "list_all (\<lambda>e. 0 \<le> fs_score e \<and> fs_score e \<le> 100) fs"
    unfolding list_all_iff
  proof
    fix e assume "e \<in> set fs"
    then have "format_and_score e \<in> set (map format_and_score fs)" by simp
    then obtain format fm where "format_and_score e = (format, min 100 (af * aggregate_spec fm))"
      unfolding m by auto
    then have e: "fs_score e = min 100 (af * aggregate_spec fm)"
      by (simp add: format_and_score_def)
    have "0 \<le> af * aggregate_spec fm"
      using af aggregate_spec_nonneg by (rule mult_nonneg_nonneg)
    then show "0 \<le> fs_score e \<and> fs_score e \<le> 100" by (simp add: e)
  qed
  have f: "list_all (factors_ok debug af) fs"
    unfolding fs_def by (rule formatScores_loop_factors)
  show ?thesis
    using sum m b f by (simp add: Let_def af_def[symmetric] fs_def[symmetric])
qed

text \<open>
  The scenario of the specification: a weighted sum of \<open>70\<close>, \<open>105\<close> before the cap and
  \<open>100\<close> after it.
\<close>

theorem formatScore_formula_witness:
  "weightCache_ok default_config Map.empty
   \<and> fst (fst (calculateFormatRiskScore default_config Map.empty scenario_format True)) = 70
   \<and> map format_and_score
        (fst (formatScores_loop default_config True
               (calculateAccountAgeFactor default_config (accountAge scenario_metrics))
               Map.empty (formats scenario_metrics)))
       = [(''chess_blitz'', 100)]"
proof -
  have ok: "weightCache_ok default_config Map.empty" by (rule weightCache_ok_empty)
  have agg: "aggregate_spec scenario_format = 70"
    by (simp add: aggregate_spec_def scenario_format_def winRateScore_spec_def
        accuracyScore_spec_def weight_spec_def)
  have af: "calculateAccountAgeFactor default_config 30 = 3 / 2"
    by (simp add: calculateAccountAgeFactor_def default_config_def)
  have el: "rg_total (recentGames scenario_format) = 20"
    by (simp add: scenario_format_def)
  note T = formatScore_formula[OF ok, of scenario_format True scenario_metrics, unfolded Let_def]
  have "fst (fst (calculateFormatRiskScore default_config Map.empty scenario_format True))
          = aggregate_spec scenario_format"
    using T by (simp only: aggregate_spec_def)
  then have one:
    "fst (fst (calculateFormatRiskScore default_config Map.empty scenario_format True)) = 70"
    by (simp only: agg)
  have "map format_and_score
        (fst (formatScores_loop default_config True
               (calculateAccountAgeFactor default_config (accountAge scenario_metrics))
               Map.empty (formats scenario_metrics)))
       = map (\<lambda>(format, fm). (format,
                 min 100 (calculateAccountAgeFactor default_config (accountAge scenario_metrics)
                          * aggregate_spec fm)))
           (filter (\<lambda>(format, fm). 5 \<le> rg_total (recentGames fm)) (formats scenario_metrics))"
    using T by (rule conjunct1[OF conjunct2])
  also have "\<dots> = [(''chess_blitz'', 100)]"
    by (simp add: scenario_metrics_def agg af el)
  finally have two: "map format_and_score
        (fst (formatScores_loop default_config True
               (calculateAccountAgeFactor default_config (accountAge scenario_metrics))
               Map.empty (formats scenario_metrics)))
       = [(''chess_blitz'', 100)]" .
  show ?thesis using ok one two by simp
qed

section \<open>The selection of the headline score\<close>



lemma formatScores_loop_snd:
  assumes "weightCache_ok cfg c"
  shows "weightCache_ok cfg (snd (formatScores_loop cfg debug af c fmts))"
  using assms
proof (induction fmts arbitrary: c)
  case Nil
  then show ?case by simp
next
  case (Cons p fmts)
  obtain format fm where p: "p = (format, fm)" by (cases p)
  have ok1: "weightCache_ok cfg (snd (calculateFormatRiskScore cfg c fm debug))"
    using Cons.prems by (rule calculateFormatRiskScore_snd)
  show ?case
    using Cons.IH[OF Cons.prems] Cons.IH[OF ok1]
    by (simp add: p Let_def split_beta)
qed









section \<open>The opponent history\<close>

lemma findIndex_ge: "- 1 \<le> findIndex P xs"
  by (induction xs) (auto simp: Let_def)

lemma findIndex_none: "findIndex P xs < 0 \<longleftrightarrow> (\<forall>x \<in> set xs. \<not> P x)"
  using findIndex_ge[of P] by (induction xs) (auto simp: Let_def)

lemma findIndex_some:
  "0 \<le> findIndex P xs \<Longrightarrow> nat (findIndex P xs) < length xs \<and> P (xs ! nat (findIndex P xs))"
proof (induction xs)
  case Nil
  then show ?case by simp
next
  case (Cons x xs)
  show ?case
  proof (cases "P x")
    case True
    then show ?thesis by simp
  next
    case False
    with Cons.prems have i: "0 \<le> findIndex P xs"
      by (simp add: Let_def split: if_splits)
    then have "nat (findIndex P xs + 1) = Suc (nat (findIndex P xs))" by simp
    then show ?thesis using False i Cons.IH[OF i] by (simp add: Let_def)
  qed
qed

lemma addToHistory_history:
  "opponentHistory (addToHistory st d) =
     (let i = findIndex (\<lambda>h. toLowerCase (he_username h) = toLowerCase (rs_username d))
                (opponentHistory st)
      in if 0 \<le> i then (opponentHistory st)[nat i := historyEntry_spec d]
         else take 50 (historyEntry_spec d # opponentHistory st))"
  by (simp add: addToHistory_def Let_def historyEntry_spec_def)

lemma addToHistory_storage:
  "storage_opponentHistory (addToHistory st d) = Some (opponentHistory (addToHistory st d))"
  by (simp add: addToHistory_def Let_def)

lemma history_ok_update:
  assumes ok: "history_ok hs" and i: "i < length hs"
    and same: "toLowerCase (he_username (hs ! i)) = toLowerCase (he_username e)"
  shows "history_ok (hs[i := e])"
proof -
  have "map (\<lambda>h. toLowerCase (he_username h)) (hs[i := e])
          = (map (\<lambda>h. toLowerCase (he_username h)) hs)[i := toLowerCase (he_username e)]"
    by (simp add: map_update)
  also have "\<dots> = map (\<lambda>h. toLowerCase (he_username h)) hs"
    using i same by (metis length_map list_update_id nth_map)
  finally show ?thesis using ok by (simp add: history_ok_def)
qed

lemma history_ok_unshift:
  assumes ok: "history_ok hs"
    and new: "\<forall>h \<in> set hs. toLowerCase (he_username h) \<noteq> toLowerCase (he_username e)"
  shows "history_ok (take 50 (e # hs))"
proof -
  have "distinct (map (\<lambda>h. toLowerCase (he_username h)) (e # hs))"
    using ok new by (auto simp: history_ok_def)
  then have "distinct (take 50 (map (\<lambda>h. toLowerCase (he_username h)) (e # hs)))"
    by (rule distinct_take)
  then have "distinct (map (\<lambda>h. toLowerCase (he_username h)) (take 50 (e # hs)))"
    by (simp only: take_map)
  moreover have "length (take 50 (e # hs)) \<le> 50"
    by (simp only: length_take min.cobounded2)
  ultimately show ?thesis by (simp only: history_ok_def simp_thms)
qed

lemma addToHistory_ok:
  assumes ok: "history_ok (opponentHistory st)"
  shows "history_ok (opponentHistory (addToHistory st d))"
proof -
  let ?P = "\<lambda>h. toLowerCase (he_username h) = toLowerCase (rs_username d)"
  let ?i = "findIndex ?P (opponentHistory st)"
  have name: "he_username (historyEntry_spec d) = rs_username d"
    by (simp add: historyEntry_spec_def)
  show ?thesis
  proof (cases "0 \<le> ?i")
    case True
    from findIndex_some[OF True]
    have "history_ok ((opponentHistory st)[nat ?i := historyEntry_spec d])"
      by (intro history_ok_update[OF ok]) (simp_all add: name)
    then show ?thesis using True by (simp add: addToHistory_history Let_def)
  next
    case False
    then have "?i < 0" by simp
    then have "\<forall>h \<in> set (opponentHistory st). \<not> ?P h" by (simp only: findIndex_none)
    then have "history_ok (take 50 (historyEntry_spec d # opponentHistory st))"
      by (intro history_ok_unshift[OF ok]) (simp add: name)
    then show ?thesis using False by (simp add: addToHistory_history Let_def)
  qed
qed

lemma addToHistory_run_ok:
  assumes "history_ok (opponentHistory st)"
  shows "history_ok (opponentHistory (foldl addToHistory st ds))"
  using assms by (induction ds arbitrary: st) (simp_all add: addToHistory_ok)

text \<open>
  Claim C9, as amended. After every call of \<open>addToHistory\<close> on a history of at most \<open>50\<close>
  entries with pairwise distinct case-insensitive usernames, the history again has at most
  \<open>50\<close> entries with pairwise distinct case-insensitive usernames, and it is what was
  written to the storage. A repeat analysis of a username that is present replaces that
  username's single entry at its position and adds no duplicate; a new username is put at
  the front and the list is cut to its first \<open>50\<close> entries. Every history built from the
  empty one by calls of \<open>addToHistory\<close> satisfies the condition. So the most recently
  added username is first, and an update leaves the order as it is.
\<close>

theorem addToHistory_upsert:
  assumes ok: "history_ok (opponentHistory st)"
  shows "history_ok (opponentHistory (addToHistory st opponentData))
       \<and> storage_opponentHistory (addToHistory st opponentData)
           = Some (opponentHistory (addToHistory st opponentData))
       \<and> ((\<exists>h \<in> set (opponentHistory st).
              toLowerCase (he_username h) = toLowerCase (rs_username opponentData)) \<longrightarrow>
            (\<exists>i < length (opponentHistory st).
               toLowerCase (he_username (opponentHistory st ! i))
                 = toLowerCase (rs_username opponentData)
             \<and> opponentHistory (addToHistory st opponentData)
                 = (opponentHistory st)[i := historyEntry_spec opponentData]))
       \<and> ((\<forall>h \<in> set (opponentHistory st).
              toLowerCase (he_username h) \<noteq> toLowerCase (rs_username opponentData)) \<longrightarrow>
            opponentHistory (addToHistory st opponentData)
              = take 50 (historyEntry_spec opponentData # opponentHistory st))
       \<and> history_ok (opponentHistory (foldl addToHistory initial_state ds))"
proof -
  let ?P = "\<lambda>h. toLowerCase (he_username h) = toLowerCase (rs_username opponentData)"
  let ?i = "findIndex ?P (opponentHistory st)"
  have a: "history_ok (opponentHistory (addToHistory st opponentData))"
    using ok by (rule addToHistory_ok)
  have b: "storage_opponentHistory (addToHistory st opponentData)
           = Some (opponentHistory (addToHistory st opponentData))"
    by (rule addToHistory_storage)
  have c: "(\<exists>h \<in> set (opponentHistory st). ?P h) \<longrightarrow>
            (\<exists>i < length (opponentHistory st). ?P (opponentHistory st ! i)
             \<and> opponentHistory (addToHistory st opponentData)
                 = (opponentHistory st)[i := historyEntry_spec opponentData])"
  proof
    assume "\<exists>h \<in> set (opponentHistory st). ?P h"
    then have "\<not> ?i < 0" by (simp only: findIndex_none) blast
    then have i: "0 \<le> ?i" by simp
    from findIndex_some[OF i]
    have "nat ?i < length (opponentHistory st)" "?P (opponentHistory st ! nat ?i)"
      by simp_all
    moreover have "opponentHistory (addToHistory st opponentData)
                 = (opponentHistory st)[nat ?i := historyEntry_spec opponentData]"
      using i by (simp add: addToHistory_history Let_def)
    ultimately show "\<exists>i < length (opponentHistory st). ?P (opponentHistory st ! i)
             \<and> opponentHistory (addToHistory st opponentData)
                 = (opponentHistory st)[i := historyEntry_spec opponentData]"
      by blast
  qed
  have d: "(\<forall>h \<in> set (opponentHistory st). \<not> ?P h) \<longrightarrow>
            opponentHistory (addToHistory st opponentData)
              = take 50 (historyEntry_spec opponentData # opponentHistory st)"
  proof
    assume "\<forall>h \<in> set (opponentHistory st). \<not> ?P h"
    then have "?i < 0" by (simp only: findIndex_none)
    then show "opponentHistory (addToHistory st opponentData)
              = take 50 (historyEntry_spec opponentData # opponentHistory st)"
      by (simp add: addToHistory_history Let_def)
  qed
  have e: "history_ok (opponentHistory (foldl addToHistory initial_state ds))"
    by (rule addToHistory_run_ok) (simp add: initial_state_def history_ok_def)
  show ?thesis using a b c d e by blast
qed

text \<open>The first analysis of an opponent, from the empty history.\<close>

theorem addToHistory_upsert_witness:
  "history_ok (opponentHistory initial_state)
   \<and> map he_username (opponentHistory (addToHistory initial_state (analysis ''bob'' 10 ''t1'')))
       = [''bob'']
   \<and> history_ok (opponentHistory (addToHistory initial_state (analysis ''bob'' 10 ''t1'')))"
proof -
  have ok: "history_ok (opponentHistory initial_state)"
    by (simp add: initial_state_def history_ok_def)
  have h0: "opponentHistory initial_state = []" by (simp add: initial_state_def)
  show ?thesis
    using ok addToHistory_upsert[OF ok, of "analysis ''bob'' 10 ''t1''" "[]"]
    by (simp add: h0 historyEntry_spec_def analysis_def history_ok_def)
qed

text \<open>
  Claim C9 as stated fails: an update does not move the entry to the front. After the
  analyses of \<open>bob\<close>, \<open>alice\<close> and \<open>Bob\<close> again, the entry updated last is the second
  one.
\<close>

theorem addToHistory_update_keeps_position:
  "map he_analyzedAt
     (opponentHistory
        (addToHistory
           (addToHistory (addToHistory initial_state (analysis ''bob'' 10 ''t1''))
              (analysis ''alice'' 20 ''t2''))
           (analysis ''Bob'' 30 ''t3'')))
     = [''t2'', ''t3'']
   \<and> he_username
        (hd (opponentHistory
          (addToHistory
             (addToHistory (addToHistory initial_state (analysis ''bob'' 10 ''t1''))
                (analysis ''alice'' 20 ''t2''))
             (analysis ''Bob'' 30 ''t3''))))
       \<noteq> ''Bob''"
  by (simp add: addToHistory_def initial_state_def analysis_def Let_def toLowerCase_def
      toLowerCase_char_def char_of_eq_iff eq_commute[of _ "char_of _"])

section \<open>Validation of the metrics\<close>

lemma validateMetrics_loop_iff:
  "validateMetrics_loop fmts \<longleftrightarrow>
     list_all (\<lambda>(format, fm).
        0 \<le> overallWinrate fm \<and> overallWinrate fm \<le> 100 \<and>
        gc_total (gamesCounts fm)
          = gc_wins (gamesCounts fm) + gc_losses (gamesCounts fm) + gc_draws (gamesCounts fm) \<and>
        highAccuracyGames (accuracy fm) \<le> gamesWithAccuracy (accuracy fm) \<and>
        \<not> js_less (highAccuracyPercentage (accuracy fm)) 0 \<and>
        \<not> js_greater (highAccuracyPercentage (accuracy fm)) 100) fmts"
  by (induction fmts rule: validateMetrics_loop.induct) (auto simp: Let_def)

lemma validateMetrics_checked:
  assumes "validateMetrics metrics"
  shows "0 < accountAge metrics" and "formats metrics \<noteq> []"
    and "(format, fm) \<in> set (formats metrics) \<Longrightarrow>
           0 \<le> overallWinrate fm \<and> overallWinrate fm \<le> 100 \<and>
           gc_total (gamesCounts fm)
             = gc_wins (gamesCounts fm) + gc_losses (gamesCounts fm) + gc_draws (gamesCounts fm) \<and>
           highAccuracyGames (accuracy fm) \<le> gamesWithAccuracy (accuracy fm) \<and>
           \<not> js_less (highAccuracyPercentage (accuracy fm)) 0 \<and>
           \<not> js_greater (highAccuracyPercentage (accuracy fm)) 100"
proof -
  show "0 < accountAge metrics" "formats metrics \<noteq> []"
    using assms by (auto simp: validateMetrics_def split: if_splits)
  have "validateMetrics_loop (formats metrics)"
    using assms by (auto simp: validateMetrics_def split: if_splits)
  then have all: "\<forall>x \<in> set (formats metrics). case x of (format, fm) \<Rightarrow>
        0 \<le> overallWinrate fm \<and> overallWinrate fm \<le> 100 \<and>
        gc_total (gamesCounts fm)
          = gc_wins (gamesCounts fm) + gc_losses (gamesCounts fm) + gc_draws (gamesCounts fm) \<and>
        highAccuracyGames (accuracy fm) \<le> gamesWithAccuracy (accuracy fm) \<and>
        \<not> js_less (highAccuracyPercentage (accuracy fm)) 0 \<and>
        \<not> js_greater (highAccuracyPercentage (accuracy fm)) 100"
    by (simp only: validateMetrics_loop_iff list_all_iff)
  assume "(format, fm) \<in> set (formats metrics)"
  with all show "0 \<le> overallWinrate fm \<and> overallWinrate fm \<le> 100 \<and>
           gc_total (gamesCounts fm)
             = gc_wins (gamesCounts fm) + gc_losses (gamesCounts fm) + gc_draws (gamesCounts fm) \<and>
           highAccuracyGames (accuracy fm) \<le> gamesWithAccuracy (accuracy fm) \<and>
           \<not> js_less (highAccuracyPercentage (accuracy fm)) 0 \<and>
           \<not> js_greater (highAccuracyPercentage (accuracy fm)) 100"
    by fastforce
qed

lemma validateMetrics_rejects:
  "accountAge metrics < 0 \<Longrightarrow> \<not> validateMetrics metrics"
  "formats metrics = [] \<Longrightarrow> \<not> validateMetrics metrics"
  "(format, fm) \<in> set (formats metrics) \<Longrightarrow>
     gc_total (gamesCounts fm)
       \<noteq> gc_wins (gamesCounts fm) + gc_losses (gamesCounts fm) + gc_draws (gamesCounts fm) \<Longrightarrow>
     \<not> validateMetrics metrics"
  "(format, fm) \<in> set (formats metrics) \<Longrightarrow>
     highAccuracyGames (accuracy fm) > gamesWithAccuracy (accuracy fm) \<Longrightarrow>
     \<not> validateMetrics metrics"
  "(format, fm) \<in> set (formats metrics) \<Longrightarrow>
     overallWinrate fm < 0 \<or> overallWinrate fm > 100 \<Longrightarrow> \<not> validateMetrics metrics"
  "(format, fm) \<in> set (formats metrics) \<Longrightarrow> highAccuracyPercentage (accuracy fm) = Num p \<Longrightarrow>
     p < 0 \<or> p > 100 \<Longrightarrow> \<not> validateMetrics metrics"
proof -
  show "accountAge metrics < 0 \<Longrightarrow> \<not> validateMetrics metrics"
    using validateMetrics_checked(1)[of metrics] by auto
  show "formats metrics = [] \<Longrightarrow> \<not> validateMetrics metrics"
    using validateMetrics_checked(2)[of metrics] by auto
  show "(format, fm) \<in> set (formats metrics) \<Longrightarrow>
     gc_total (gamesCounts fm)
       \<noteq> gc_wins (gamesCounts fm) + gc_losses (gamesCounts fm) + gc_draws (gamesCounts fm) \<Longrightarrow>
     \<not> validateMetrics metrics"
    using validateMetrics_checked(3)[of metrics format fm] by auto
  show "(format, fm) \<in> set (formats metrics) \<Longrightarrow>
     highAccuracyGames (accuracy fm) > gamesWithAccuracy (accuracy fm) \<Longrightarrow>
     \<not> validateMetrics metrics"
    using validateMetrics_checked(3)[of metrics format fm] by auto
  show "(format, fm) \<in> set (formats metrics) \<Longrightarrow>
     overallWinrate fm < 0 \<or> overallWinrate fm > 100 \<Longrightarrow> \<not> validateMetrics metrics"
    using validateMetrics_checked(3)[of metrics format fm] by auto
  show "(format, fm) \<in> set (formats metrics) \<Longrightarrow> highAccuracyPercentage (accuracy fm) = Num p \<Longrightarrow>
     p < 0 \<or> p > 100 \<Longrightarrow> \<not> validateMetrics metrics"
    using validateMetrics_checked(3)[of metrics format fm] by auto
qed

lemma validateMetrics_accepts:
  assumes "PlayerMetrics_spec metrics" and "accountAge metrics \<noteq> 0"
  shows "validateMetrics metrics"
proof -
  have "validateMetrics_loop (formats metrics)"
    unfolding validateMetrics_loop_iff list_all_iff
  proof
    fix x assume x: "x \<in> set (formats metrics)"
    obtain format fm where p: "x = (format, fm)" by (cases x)
    have "FormatStats_spec fm"
      using assms(1) x by (auto simp: PlayerMetrics_spec_def list_all_iff p)
    then show "case x of (format, fm) \<Rightarrow>
        0 \<le> overallWinrate fm \<and> overallWinrate fm \<le> 100 \<and>
        gc_total (gamesCounts fm)
          = gc_wins (gamesCounts fm) + gc_losses (gamesCounts fm) + gc_draws (gamesCounts fm) \<and>
        highAccuracyGames (accuracy fm) \<le> gamesWithAccuracy (accuracy fm) \<and>
        \<not> js_less (highAccuracyPercentage (accuracy fm)) 0 \<and>
        \<not> js_greater (highAccuracyPercentage (accuracy fm)) 100"
      by (auto simp: FormatStats_spec_def p split: jsnum.splits)
  qed
  then show ?thesis
    using assms by (auto simp: validateMetrics_def PlayerMetrics_spec_def)
qed

text \<open>
  Claim C8 fails on the code at an account age of \<open>0\<close> days. The metrics of the scenario
  with an account created today satisfy the data model of the specification, and
  \<open>validateMetrics\<close> returns \<open>false\<close> for them, since \<open>!metrics.accountAge\<close> holds of \<open>0\<close>;
  with an account age of \<open>1\<close> day it returns \<open>true\<close>. \<open>calculateAccountAge\<close> gives \<open>0\<close> for
  an account joined less than a day ago.
\<close>

theorem validateMetrics_rejects_new_account:
  "PlayerMetrics_spec (scenario_metrics\<lparr> accountAge := 0 \<rparr>)
   \<and> validateMetrics (scenario_metrics\<lparr> accountAge := 0 \<rparr>) = False
   \<and> validateMetrics (scenario_metrics\<lparr> accountAge := 1 \<rparr>) = True
   \<and> calculateAccountAge 1700000000000 1699999000 = 0"
  by (simp add: PlayerMetrics_spec_def FormatStats_spec_def validateMetrics_def
      scenario_metrics_def scenario_format_def calculateAccountAge_def)

end
